theory Spec2Isabelle
  imports Main "HOL-Library.Sublist"
begin

section \<open>Strings and the Python library\<close>

text \<open>
  A Python \<open>str\<close> is a sequence of Unicode code points; a code point is a natural
  number here and a string a list of them. \<open>lit\<close> embeds an ASCII literal of the source.
\<close>

type_synonym ustr = "nat list"

definition lit :: "string \<Rightarrow> ustr" where
  "lit s = map of_char s"

text \<open>\<open>s.startswith(p)\<close>, \<open>s.endswith(p)\<close> and \<open>sub in s\<close>.\<close>

fun startswith :: "ustr \<Rightarrow> ustr \<Rightarrow> bool" where
  "startswith s [] = True"
| "startswith [] (p # ps) = False"
| "startswith (x # xs) (p # ps) = (x = p \<and> startswith xs ps)"

definition endswith :: "ustr \<Rightarrow> ustr \<Rightarrow> bool" where
  "endswith s suf = startswith (rev s) (rev suf)"

fun contains :: "ustr \<Rightarrow> ustr \<Rightarrow> bool" where
  "contains sub [] = (sub = [])"
| "contains sub (x # xs) = (startswith (x # xs) sub \<or> contains sub xs)"

text \<open>
  The functions of the Python runtime that depend on the Unicode character database or on
  the HTML entity table are parameters of the model: \<open>str.isspace\<close> (which is also the
  class \<open>\s\<close> of \<open>re\<close>), the class \<open>\w\<close>, the value of a decimal digit (a character is in
  \<open>\d\<close>, and accepted by \<open>int\<close>, exactly when it has one), \<open>str.lower\<close>, the equivalence of
  a pattern letter and an input character under \<open>re.IGNORECASE\<close>, and \<open>html.unescape\<close>.
\<close>

record pylib =
  isspace :: "nat \<Rightarrow> bool"
  isword :: "nat \<Rightarrow> bool"
  digitval :: "nat \<Rightarrow> nat option"
  lower :: "ustr \<Rightarrow> ustr"
  ieq :: "nat \<Rightarrow> nat \<Rightarrow> bool"
  unescape :: "ustr \<Rightarrow> ustr"

text \<open>
  An instance for evaluating examples. It agrees with CPython on ASCII text that holds no
  character reference (\<open>&...;\<close>); beyond ASCII it knows the Unicode white space and the
  letters of the basic Cyrillic block.
\<close>

definition ascii_lower :: "nat \<Rightarrow> nat" where
  "ascii_lower x = (if 65 \<le> x \<and> x \<le> 90 then x + 32 else x)"

definition py_basic :: pylib where
  "py_basic = \<lparr>
     isspace = (\<lambda>x. x \<in> set [9, 10, 11, 12, 13, 28, 29, 30, 31, 32, 133, 160, 5760, 8232, 8233,
                                8239, 8287, 12288] \<or> (8192 \<le> x \<and> x \<le> 8202)),
     isword = (\<lambda>x. (48 \<le> x \<and> x \<le> 57) \<or> (65 \<le> x \<and> x \<le> 90) \<or> x = 95
                  \<or> (97 \<le> x \<and> x \<le> 122) \<or> (1024 \<le> x \<and> x \<le> 1153)),
     digitval = (\<lambda>x. if 48 \<le> x \<and> x \<le> 57 then Some (x - 48) else None),
     lower = map (\<lambda>x. if 65 \<le> x \<and> x \<le> 90 then x + 32
                        else if 1040 \<le> x \<and> x \<le> 1071 then x + 32
                        else if 1024 \<le> x \<and> x \<le> 1039 then x + 80 else x),
     ieq = (\<lambda>a x. ascii_lower a = ascii_lower x),
     unescape = (\<lambda>s. s)\<rparr>"

text \<open>\<open>s.strip()\<close> and the slice \<open>s[b:e]\<close> for \<open>0 \<le> b \<le> e \<le> len(s)\<close>.\<close>

definition strip :: "pylib \<Rightarrow> ustr \<Rightarrow> ustr" where
  "strip U s = rev (dropWhile (isspace U) (rev (dropWhile (isspace U) s)))"

definition slice :: "ustr \<Rightarrow> nat \<Rightarrow> nat \<Rightarrow> ustr" where
  "slice s b e = take (e - b) (drop b s)"

section \<open>The regular expressions of \<open>re\<close>\<close>

text \<open>
  The patterns of this program use literals, character classes, quantifiers over a single
  character class (greedy or lazy), groups, \<open>\b\<close> and one alternation. A pattern is a list
  of items; a group is written as its opening and closing marks around its items.
  With \<open>re.DOTALL\<close> the dot is \<open>AnyC\<close>; with \<open>re.IGNORECASE\<close> a letter is \<open>ILit\<close>.
\<close>

datatype cls = Lit nat | ILit nat | AnyC | Digit | Space | WordC | OneOf "nat list" | NotIn "nat list"

fun cls_match :: "pylib \<Rightarrow> cls \<Rightarrow> nat \<Rightarrow> bool" where
  "cls_match U (Lit a) x = (x = a)"
| "cls_match U (ILit a) x = ieq U a x"
| "cls_match U AnyC x = True"
| "cls_match U Digit x = (digitval U x \<noteq> None)"
| "cls_match U Space x = isspace U x"
| "cls_match U WordC x = isword U x"
| "cls_match U (OneOf as) x = (x \<in> set as)"
| "cls_match U (NotIn as) x = (x \<notin> set as)"

datatype re = Ch cls | Rep bool nat "nat option" cls | WordB | Open nat | Close nat
  | Alt "re list" "re list"

fun re_size :: "re \<Rightarrow> nat" where
  "re_size (Alt xs ys) = Suc (sum_list (map re_size xs) + sum_list (map re_size ys))"
| "re_size _ = 1"

definition lits :: "string \<Rightarrow> re list" where
  "lits s = map (\<lambda>c. Ch (Lit (of_char c))) s"

text \<open>
  A literal under \<open>re.IGNORECASE\<close>: \<open>re\<close> compares a cased character of the pattern up to
  case and any other character exactly; the cased characters of these patterns are ASCII
  letters.
\<close>

definition icase :: "nat \<Rightarrow> cls" where
  "icase x = (if (65 \<le> x \<and> x \<le> 90) \<or> (97 \<le> x \<and> x \<le> 122) then ILit x else Lit x)"

definition ilits :: "string \<Rightarrow> re list" where
  "ilits s = map (\<lambda>c. Ch (icase (of_char c))) s"

text \<open>The groups: where each was opened last, and the span of each that has closed.\<close>

record caps =
  opens :: "nat \<Rightarrow> nat"
  spans :: "nat \<Rightarrow> (nat \<times> nat) option"

definition no_caps :: caps where
  "no_caps = \<lparr>opens = (\<lambda>_. 0), spans = (\<lambda>_. None)\<rparr>"

text \<open>
  A position in the subject: its index, the character before it and the text from it on.
\<close>

type_synonym cursor = "nat \<times> nat option \<times> ustr"

definition at_boundary :: "pylib \<Rightarrow> nat option \<Rightarrow> ustr \<Rightarrow> bool" where
  "at_boundary U pv xs =
     ((case pv of None \<Rightarrow> False | Some x \<Rightarrow> isword U x)
      \<noteq> (case xs of [] \<Rightarrow> False | x # _ \<Rightarrow> isword U x))"

fun more :: "nat option \<Rightarrow> bool" where
  "more None = True"
| "more (Some h) = (0 < h)"

fun dec :: "nat option \<Rightarrow> nat option" where
  "dec None = None"
| "dec (Some h) = Some (h - 1)"

text \<open>
  The backtracking matcher: \<open>rx U p i pv xs g\<close> matches the pattern \<open>p\<close> at index \<open>i\<close>,
  where \<open>pv\<close> is the character before and \<open>xs\<close> the text ahead, and returns the first match
  in the order \<open>re\<close> tries them: a greedy quantifier takes a character before it tries the
  rest of the pattern, a lazy one tries the rest first; the left alternative comes first.
  \<open>Rep greedy lo hi k\<close> still needs \<open>lo\<close> characters of class \<open>k\<close> and may take \<open>hi\<close>.
\<close>

function rx :: "pylib \<Rightarrow> re list \<Rightarrow> nat \<Rightarrow> nat option \<Rightarrow> ustr \<Rightarrow> caps
    \<Rightarrow> (cursor \<times> caps) option" where
  "rx U [] i pv xs g = Some ((i, pv, xs), g)"
| "rx U (Ch k # rs) i pv [] g = None"
| "rx U (Ch k # rs) i pv (x # xs) g =
     (if cls_match U k x then rx U rs (Suc i) (Some x) xs g else None)"
| "rx U (Rep greedy lo hi k # rs) i pv [] g = (if lo = 0 then rx U rs i pv [] g else None)"
| "rx U (Rep True lo hi k # rs) i pv (x # xs) g =
     (if more hi \<and> cls_match U k x
      then (case rx U (Rep True (lo - 1) (dec hi) k # rs) (Suc i) (Some x) xs g of
              Some r \<Rightarrow> Some r
            | None \<Rightarrow> if lo = 0 then rx U rs i pv (x # xs) g else None)
      else if lo = 0 then rx U rs i pv (x # xs) g else None)"
| "rx U (Rep False lo hi k # rs) i pv (x # xs) g =
     (if lo = 0
      then (case rx U rs i pv (x # xs) g of
              Some r \<Rightarrow> Some r
            | None \<Rightarrow> if more hi \<and> cls_match U k x
                      then rx U (Rep False 0 (dec hi) k # rs) (Suc i) (Some x) xs g else None)
      else if more hi \<and> cls_match U k x
           then rx U (Rep False (lo - 1) (dec hi) k # rs) (Suc i) (Some x) xs g else None)"
| "rx U (WordB # rs) i pv xs g = (if at_boundary U pv xs then rx U rs i pv xs g else None)"
| "rx U (Open n # rs) i pv xs g = rx U rs i pv xs (g\<lparr>opens := (opens g)(n := i)\<rparr>)"
| "rx U (Close n # rs) i pv xs g =
     rx U rs i pv xs (g\<lparr>spans := (spans g)(n \<mapsto> (opens g n, i))\<rparr>)"
| "rx U (Alt ys zs # rs) i pv xs g =
     (case rx U (ys @ rs) i pv xs g of Some r \<Rightarrow> Some r | None \<Rightarrow> rx U (zs @ rs) i pv xs g)"
  by pat_completeness auto
termination
  by (relation "measures [\<lambda>(U, rs, i, pv, xs, g). sum_list (map re_size rs),
                          \<lambda>(U, rs, i, pv, xs, g). length xs]") auto

text \<open>A match object: \<open>m.start()\<close>, \<open>m.end()\<close> and the span of each group.\<close>

record rmatch =
  m_start :: nat
  m_end :: nat
  m_spans :: "nat \<Rightarrow> (nat \<times> nat) option"

definition try_at :: "pylib \<Rightarrow> re list \<Rightarrow> nat \<Rightarrow> nat option \<Rightarrow> ustr \<Rightarrow> rmatch option" where
  "try_at U p i pv xs = (case rx U p i pv xs no_caps of None \<Rightarrow> None
     | Some (c, g) \<Rightarrow> Some \<lparr>m_start = i, m_end = fst c, m_spans = spans g\<rparr>)"

text \<open>\<open>m.group(n)\<close> on the subject \<open>s\<close>: \<open>None\<close> for a group that took no part.\<close>

definition group :: "ustr \<Rightarrow> rmatch \<Rightarrow> nat \<Rightarrow> ustr option" where
  "group s m n = (case m_spans m n of None \<Rightarrow> None | Some (b, e) \<Rightarrow> Some (slice s b e))"

text \<open>\<open>re.match\<close> tries the start of the subject only; \<open>re.search\<close> tries every index in turn.\<close>

definition re_match :: "pylib \<Rightarrow> re list \<Rightarrow> ustr \<Rightarrow> rmatch option" where
  "re_match U p s = try_at U p 0 None s"

fun scan :: "pylib \<Rightarrow> re list \<Rightarrow> nat \<Rightarrow> nat option \<Rightarrow> ustr \<Rightarrow> rmatch option" where
  "scan U p i pv [] = try_at U p i pv []"
| "scan U p i pv (x # xs) = (case try_at U p i pv (x # xs) of Some m \<Rightarrow> Some m
     | None \<Rightarrow> scan U p (Suc i) (Some x) xs)"

definition re_search :: "pylib \<Rightarrow> re list \<Rightarrow> ustr \<Rightarrow> rmatch option" where
  "re_search U p s = scan U p 0 None s"

text \<open>The truth value of \<open>pattern.search(text)\<close> in a condition.\<close>

definition found :: "pylib \<Rightarrow> re list \<Rightarrow> ustr \<Rightarrow> bool" where
  "found U p s = (re_search U p s \<noteq> None)"

text \<open>
  \<open>re.finditer\<close>: the matches from left to right, none overlapping. \<open>k\<close> counts the
  characters ahead that the last match has taken. After an empty match the search moves on
  by one character; no pattern of this program matches the empty string.
\<close>

fun iter :: "pylib \<Rightarrow> re list \<Rightarrow> nat \<Rightarrow> nat option \<Rightarrow> ustr \<Rightarrow> nat \<Rightarrow> rmatch list" where
  "iter U p i pv [] k =
     (if 0 < k then [] else (case try_at U p i pv [] of None \<Rightarrow> [] | Some m \<Rightarrow> [m]))"
| "iter U p i pv (x # xs) k =
     (if 0 < k then iter U p (Suc i) (Some x) xs (k - 1)
      else (case try_at U p i pv (x # xs) of
              None \<Rightarrow> iter U p (Suc i) (Some x) xs 0
            | Some m \<Rightarrow> m # iter U p (Suc i) (Some x) xs (m_end m - i - 1)))"

definition re_finditer :: "pylib \<Rightarrow> re list \<Rightarrow> ustr \<Rightarrow> rmatch list" where
  "re_finditer U p s = iter U p 0 None s 0"

text \<open>\<open>re.findall\<close> for a pattern with one group: the text of group 1 of every match.\<close>

definition re_findall :: "pylib \<Rightarrow> re list \<Rightarrow> ustr \<Rightarrow> ustr list" where
  "re_findall U p s = map (\<lambda>m. case group s m 1 of None \<Rightarrow> [] | Some t \<Rightarrow> t) (re_finditer U p s)"

text \<open>\<open>re.sub(pattern, repl, s)\<close> for a replacement without group references.\<close>

fun subst :: "pylib \<Rightarrow> re list \<Rightarrow> ustr \<Rightarrow> nat \<Rightarrow> nat option \<Rightarrow> ustr \<Rightarrow> nat \<Rightarrow> ustr" where
  "subst U p repl i pv [] k =
     (if 0 < k then [] else (case try_at U p i pv [] of None \<Rightarrow> [] | Some m \<Rightarrow> repl))"
| "subst U p repl i pv (x # xs) k =
     (if 0 < k then subst U p repl (Suc i) (Some x) xs (k - 1)
      else (case try_at U p i pv (x # xs) of
              None \<Rightarrow> x # subst U p repl (Suc i) (Some x) xs 0
            | Some m \<Rightarrow>
                if m_end m = i then repl @ x # subst U p repl (Suc i) (Some x) xs 0
                else repl @ subst U p repl (Suc i) (Some x) xs (m_end m - i - 1)))"

definition re_sub :: "pylib \<Rightarrow> re list \<Rightarrow> ustr \<Rightarrow> ustr \<Rightarrow> ustr" where
  "re_sub U p repl s = subst U p repl 0 None s 0"

section \<open>classify.py: type classification\<close>

definition VIDEO_DOMAINS :: "ustr list" where
  "VIDEO_DOMAINS = map lit [''youtube.com'', ''youtu.be'', ''vimeo.com'', ''twitch.tv'']"

definition SOCIAL_DOMAINS :: "ustr list" where
  "SOCIAL_DOMAINS = map lit [''twitter.com'', ''x.com'', ''reddit.com'']"

definition ARTICLE_DOMAINS :: "ustr list" where
  "ARTICLE_DOMAINS = map lit [''80.lv'', ''habr.com'', ''dtf.ru'', ''gamedeveloper.com'',
     ''newsletter.gamediscover.co'', ''kotaku.com'', ''venturebeat.com'',
     ''wccftech.com'', ''nplus1.ru'', ''3dnews.ru'', ''vc.ru'']"

definition REPO_DOMAINS :: "ustr list" where
  "REPO_DOMAINS = map lit [''github.com'', ''gitlab.com'']"

definition STORE_DOMAINS :: "ustr list" where
  "STORE_DOMAINS = map lit [''store.steampowered.com'', ''store.epicgames.com'',
     ''assetstore.unity.com'', ''fab.com'', ''itch.io'', ''gumroad.com'']"

text \<open>
  The loop \<open>for d in DOMAINS: if domain.endswith("." + d): return label\<close>: it returns
  as soon as one member matches, so the iteration order of the Python set is immaterial.
\<close>

definition subdomain_of_any :: "ustr \<Rightarrow> ustr list \<Rightarrow> bool" where
  "subdomain_of_any domain ds = list_ex (\<lambda>d. endswith domain (lit ''.'' @ d)) ds"

definition classify_type :: "ustr \<Rightarrow> ustr" where
  "classify_type domain =
     (if domain \<in> set VIDEO_DOMAINS then lit ''video''
      else if domain \<in> set SOCIAL_DOMAINS then lit ''social''
      else if domain \<in> set REPO_DOMAINS then lit ''repository''
      else if domain \<in> set STORE_DOMAINS then lit ''store''
      else if domain \<in> set ARTICLE_DOMAINS then lit ''article''
      else if subdomain_of_any domain VIDEO_DOMAINS then lit ''video''
      else if subdomain_of_any domain SOCIAL_DOMAINS then lit ''social''
      else if subdomain_of_any domain REPO_DOMAINS then lit ''repository''
      else if subdomain_of_any domain STORE_DOMAINS then lit ''store''
      else lit ''article'')"

text \<open>
  The resolution order as the specification words it: the four exact checks, the four
  suffix checks, then the fallback. It has no separate test of the article domains.
\<close>

definition classify_type_spec :: "ustr \<Rightarrow> ustr" where
  "classify_type_spec domain =
     (if domain \<in> set VIDEO_DOMAINS then lit ''video''
      else if domain \<in> set SOCIAL_DOMAINS then lit ''social''
      else if domain \<in> set REPO_DOMAINS then lit ''repository''
      else if domain \<in> set STORE_DOMAINS then lit ''store''
      else if subdomain_of_any domain VIDEO_DOMAINS then lit ''video''
      else if subdomain_of_any domain SOCIAL_DOMAINS then lit ''social''
      else if subdomain_of_any domain REPO_DOMAINS then lit ''repository''
      else if subdomain_of_any domain STORE_DOMAINS then lit ''store''
      else lit ''article'')"

definition TYPE_LABELS :: "ustr list" where
  "TYPE_LABELS = map lit [''video'', ''social'', ''repository'', ''store'', ''article'']"

section \<open>classify.py: tag classification\<close>

text \<open>The precompiled word-boundary patterns, \<open>RE_FREE\<close> with \<open>re.IGNORECASE\<close>.\<close>

definition RE_AI :: "re list" where
  "RE_AI = [WordB] @ lits ''AI'' @ [WordB]"

definition RE_VR :: "re list" where
  "RE_VR = [WordB] @ lits ''VR'' @ [WordB]"

definition RE_AR :: "re list" where
  "RE_AR = [WordB] @ lits ''AR'' @ [WordB]"

definition RE_XR :: "re list" where
  "RE_XR = [WordB] @ lits ''XR'' @ [WordB]"

definition RE_FREE :: "re list" where
  "RE_FREE = [WordB] @ ilits ''free'' @ [WordB]"

definition RE_MAYA :: "re list" where
  "RE_MAYA = [WordB] @ lits ''Maya'' @ [WordB]"

definition RE_SWITCH :: "re list" where
  "RE_SWITCH = [WordB] @ lits ''Switch'' @ [WordB]"

definition RE_UE4 :: "re list" where
  "RE_UE4 = [WordB] @ lits ''UE4'' @ [WordB]"

definition RE_UE5 :: "re list" where
  "RE_UE5 = [WordB] @ lits ''UE5'' @ [WordB]"

text \<open>The Russian keywords of the rules, as code points.\<close>

definition KW_OTKRYTYI_KOD :: ustr where
  "KW_OTKRYTYI_KOD = [1086, 1090, 1082, 1088, 1099, 1090, 1099, 1081, 32, 1082, 1086, 1076]"

definition KW_BESPLATN :: ustr where
  "KW_BESPLATN = [1073, 1077, 1089, 1087, 1083, 1072, 1090, 1085]"

definition KW_NEIROSET :: ustr where
  "KW_NEIROSET = [1085, 1077, 1081, 1088, 1086, 1089, 1077, 1090]"

definition KW_ISKUSSTVENN :: ustr where
  "KW_ISKUSSTVENN = [1080, 1089, 1082, 1091, 1089, 1089, 1090, 1074, 1077, 1085, 1085]"

definition KW_VIRTUALN :: ustr where
  "KW_VIRTUALN = [1074, 1080, 1088, 1090, 1091, 1072, 1083, 1100, 1085]"

definition KW_SHEIDER :: ustr where
  "KW_SHEIDER = [1096, 1077, 1081, 1076, 1077, 1088]"

definition KW_ANIMACI :: ustr where
  "KW_ANIMACI = [1072, 1085, 1080, 1084, 1072, 1094, 1080]"

definition KW_PROCEDURN :: ustr where
  "KW_PROCEDURN = [1087, 1088, 1086, 1094, 1077, 1076, 1091, 1088, 1085]"

text \<open>
  One definition for each rule of \<open>classify_tags\<close>, in the order of the source; each takes
  the list \<open>tags\<close> built so far and returns it, with its label appended or unchanged.
\<close>

definition tag_unreal :: "pylib \<Rightarrow> ustr \<Rightarrow> ustr \<Rightarrow> ustr list \<Rightarrow> ustr list" where
  "tag_unreal U domain text tags =
     (if endswith domain (lit ''unrealengine.com'') \<or> domain = lit ''unrealengine.com''
      then tags @ [lit ''unreal engine'']
      else if contains (lit ''unreal engine'') (lower U text) \<or> contains (lit ''unreal'') (lower U text)
              \<or> found U RE_UE4 text \<or> found U RE_UE5 text
      then tags @ [lit ''unreal engine'']
      else tags)"

definition tag_unity :: "pylib \<Rightarrow> ustr \<Rightarrow> ustr \<Rightarrow> ustr list \<Rightarrow> ustr list" where
  "tag_unity U domain text tags =
     (if domain \<in> set [lit ''blog.unity.com'', lit ''unity.com''] \<or> endswith domain (lit ''.unity.com'')
      then tags @ [lit ''unity'']
      else if contains (lit ''unity'') (lower U text) then tags @ [lit ''unity'']
      else tags)"

definition tag_godot :: "pylib \<Rightarrow> ustr \<Rightarrow> ustr \<Rightarrow> ustr list \<Rightarrow> ustr list" where
  "tag_godot U domain text tags =
     (if endswith domain (lit ''godotengine.org'') \<or> domain = lit ''godotengine.org''
      then tags @ [lit ''godot'']
      else if contains (lit ''godot'') (lower U text) then tags @ [lit ''godot'']
      else tags)"

definition tag_blender :: "pylib \<Rightarrow> ustr \<Rightarrow> ustr \<Rightarrow> ustr list \<Rightarrow> ustr list" where
  "tag_blender U domain text tags =
     (if contains (lit ''blender'') (lower U text) then tags @ [lit ''blender''] else tags)"

definition tag_houdini :: "pylib \<Rightarrow> ustr \<Rightarrow> ustr \<Rightarrow> ustr list \<Rightarrow> ustr list" where
  "tag_houdini U domain text tags =
     (if contains (lit ''houdini'') (lower U text) then tags @ [lit ''houdini''] else tags)"

definition tag_substance :: "pylib \<Rightarrow> ustr \<Rightarrow> ustr \<Rightarrow> ustr list \<Rightarrow> ustr list" where
  "tag_substance U domain text tags =
     (if contains (lit ''substance'') (lower U text) then tags @ [lit ''substance''] else tags)"

definition tag_maya :: "pylib \<Rightarrow> ustr \<Rightarrow> ustr \<Rightarrow> ustr list \<Rightarrow> ustr list" where
  "tag_maya U domain text tags =
     (if found U RE_MAYA text then tags @ [lit ''maya''] else tags)"

definition tag_zbrush :: "pylib \<Rightarrow> ustr \<Rightarrow> ustr \<Rightarrow> ustr list \<Rightarrow> ustr list" where
  "tag_zbrush U domain text tags =
     (if contains (lit ''zbrush'') (lower U text) then tags @ [lit ''zbrush''] else tags)"

definition tag_opensource :: "pylib \<Rightarrow> ustr \<Rightarrow> ustr \<Rightarrow> ustr list \<Rightarrow> ustr list" where
  "tag_opensource U domain text tags =
     (if domain \<in> set [lit ''github.com'', lit ''gitlab.com'']
         \<or> endswith domain (lit ''.github.com'') \<or> endswith domain (lit ''.gitlab.com'')
      then tags @ [lit ''opensource'']
      else if list_ex (\<lambda>kw. contains kw (lower U text))
                [lit ''open source'', lit ''opensource'', KW_OTKRYTYI_KOD, lit ''open-source'']
      then tags @ [lit ''opensource'']
      else tags)"

definition tag_free :: "pylib \<Rightarrow> ustr \<Rightarrow> ustr \<Rightarrow> ustr list \<Rightarrow> ustr list" where
  "tag_free U domain text tags =
     (if contains KW_BESPLATN (lower U text) \<or> found U RE_FREE text
         \<or> domain = lit ''itch.io'' \<or> endswith domain (lit ''.itch.io'')
      then tags @ [lit ''free''] else tags)"

definition tag_steam :: "pylib \<Rightarrow> ustr \<Rightarrow> ustr \<Rightarrow> ustr list \<Rightarrow> ustr list" where
  "tag_steam U domain text tags =
     (if endswith domain (lit ''steampowered.com'') \<or> domain = lit ''steampowered.com''
      then tags @ [lit ''steam'']
      else if contains (lit ''steam'') (lower U text) then tags @ [lit ''steam'']
      else tags)"

definition tag_playstation :: "pylib \<Rightarrow> ustr \<Rightarrow> ustr \<Rightarrow> ustr list \<Rightarrow> ustr list" where
  "tag_playstation U domain text tags =
     (if list_ex (\<lambda>kw. contains kw (lower U text)) [lit ''playstation'']
         \<or> list_ex (\<lambda>kw. contains kw text) [lit ''PS4'', lit ''PS5'']
      then tags @ [lit ''playstation''] else tags)"

definition tag_xbox :: "pylib \<Rightarrow> ustr \<Rightarrow> ustr \<Rightarrow> ustr list \<Rightarrow> ustr list" where
  "tag_xbox U domain text tags =
     (if contains (lit ''xbox'') (lower U text) then tags @ [lit ''xbox''] else tags)"

definition tag_nintendo :: "pylib \<Rightarrow> ustr \<Rightarrow> ustr \<Rightarrow> ustr list \<Rightarrow> ustr list" where
  "tag_nintendo U domain text tags =
     (if contains (lit ''nintendo'') (lower U text) \<or> found U RE_SWITCH text
      then tags @ [lit ''nintendo''] else tags)"

definition tag_ai :: "pylib \<Rightarrow> ustr \<Rightarrow> ustr \<Rightarrow> ustr list \<Rightarrow> ustr list" where
  "tag_ai U domain text tags =
     (if found U RE_AI text \<or> contains (lit ''machine learning'') (lower U text)
         \<or> contains KW_NEIROSET (lower U text) \<or> contains KW_ISKUSSTVENN (lower U text)
      then tags @ [lit ''ai''] else tags)"

definition tag_xr :: "pylib \<Rightarrow> ustr \<Rightarrow> ustr \<Rightarrow> ustr list \<Rightarrow> ustr list" where
  "tag_xr U domain text tags =
     (if found U RE_VR text \<or> found U RE_AR text \<or> found U RE_XR text
         \<or> contains (lit ''virtual reality'') (lower U text) \<or> contains KW_VIRTUALN (lower U text)
      then tags @ [lit ''xr''] else tags)"

definition tag_shaders :: "pylib \<Rightarrow> ustr \<Rightarrow> ustr \<Rightarrow> ustr list \<Rightarrow> ustr list" where
  "tag_shaders U domain text tags =
     (if contains (lit ''shader'') (lower U text) \<or> contains KW_SHEIDER (lower U text)
      then tags @ [lit ''shaders''] else tags)"

definition tag_animation :: "pylib \<Rightarrow> ustr \<Rightarrow> ustr \<Rightarrow> ustr list \<Rightarrow> ustr list" where
  "tag_animation U domain text tags =
     (if contains (lit ''animation'') (lower U text) \<or> contains KW_ANIMACI (lower U text)
      then tags @ [lit ''animation''] else tags)"

definition tag_procedural :: "pylib \<Rightarrow> ustr \<Rightarrow> ustr \<Rightarrow> ustr list \<Rightarrow> ustr list" where
  "tag_procedural U domain text tags =
     (if contains (lit ''procedural'') (lower U text) \<or> contains KW_PROCEDURN (lower U text)
      then tags @ [lit ''procedural''] else tags)"

definition classify_tags :: "pylib \<Rightarrow> ustr \<Rightarrow> ustr \<Rightarrow> ustr list" where
  "classify_tags U domain text =
     (let tags = [];
          tags = tag_unreal U domain text tags;
          tags = tag_unity U domain text tags;
          tags = tag_godot U domain text tags;
          tags = tag_blender U domain text tags;
          tags = tag_houdini U domain text tags;
          tags = tag_substance U domain text tags;
          tags = tag_maya U domain text tags;
          tags = tag_zbrush U domain text tags;
          tags = tag_opensource U domain text tags;
          tags = tag_free U domain text tags;
          tags = tag_steam U domain text tags;
          tags = tag_playstation U domain text tags;
          tags = tag_xbox U domain text tags;
          tags = tag_nintendo U domain text tags;
          tags = tag_ai U domain text tags;
          tags = tag_xr U domain text tags;
          tags = tag_shaders U domain text tags;
          tags = tag_animation U domain text tags;
          tags = tag_procedural U domain text tags
      in tags)"

text \<open>
  The rules as a table of label and condition, in the declared order: the condition of a
  rule with an \<open>elif\<close> is the disjunction of its two tests. \<open>fire\<close> lists the labels whose
  condition holds.
\<close>

definition tag_rules :: "pylib \<Rightarrow> ustr \<Rightarrow> ustr \<Rightarrow> (ustr \<times> bool) list" where
  "tag_rules U domain text =
    [(lit ''unreal engine'',
        ((endswith domain (lit ''unrealengine.com'') \<or> domain = lit ''unrealengine.com'')
        \<or> (contains (lit ''unreal engine'') (lower U text) \<or> contains (lit ''unreal'') (lower U text)
              \<or> found U RE_UE4 text \<or> found U RE_UE5 text))),
     (lit ''unity'',
        ((domain \<in> set [lit ''blog.unity.com'', lit ''unity.com''] \<or> endswith domain (lit ''.unity.com''))
        \<or> (contains (lit ''unity'') (lower U text)))),
     (lit ''godot'',
        ((endswith domain (lit ''godotengine.org'') \<or> domain = lit ''godotengine.org'')
        \<or> (contains (lit ''godot'') (lower U text)))),
     (lit ''blender'',
        (contains (lit ''blender'') (lower U text))),
     (lit ''houdini'',
        (contains (lit ''houdini'') (lower U text))),
     (lit ''substance'',
        (contains (lit ''substance'') (lower U text))),
     (lit ''maya'',
        (found U RE_MAYA text)),
     (lit ''zbrush'',
        (contains (lit ''zbrush'') (lower U text))),
     (lit ''opensource'',
        ((domain \<in> set [lit ''github.com'', lit ''gitlab.com'']
         \<or> endswith domain (lit ''.github.com'') \<or> endswith domain (lit ''.gitlab.com''))
        \<or> (list_ex (\<lambda>kw. contains kw (lower U text))
                [lit ''open source'', lit ''opensource'', KW_OTKRYTYI_KOD, lit ''open-source'']))),
     (lit ''free'',
        (contains KW_BESPLATN (lower U text) \<or> found U RE_FREE text
         \<or> domain = lit ''itch.io'' \<or> endswith domain (lit ''.itch.io''))),
     (lit ''steam'',
        ((endswith domain (lit ''steampowered.com'') \<or> domain = lit ''steampowered.com'')
        \<or> (contains (lit ''steam'') (lower U text)))),
     (lit ''playstation'',
        (list_ex (\<lambda>kw. contains kw (lower U text)) [lit ''playstation'']
         \<or> list_ex (\<lambda>kw. contains kw text) [lit ''PS4'', lit ''PS5''])),
     (lit ''xbox'',
        (contains (lit ''xbox'') (lower U text))),
     (lit ''nintendo'',
        (contains (lit ''nintendo'') (lower U text) \<or> found U RE_SWITCH text)),
     (lit ''ai'',
        (found U RE_AI text \<or> contains (lit ''machine learning'') (lower U text)
         \<or> contains KW_NEIROSET (lower U text) \<or> contains KW_ISKUSSTVENN (lower U text))),
     (lit ''xr'',
        (found U RE_VR text \<or> found U RE_AR text \<or> found U RE_XR text
         \<or> contains (lit ''virtual reality'') (lower U text) \<or> contains KW_VIRTUALN (lower U text))),
     (lit ''shaders'',
        (contains (lit ''shader'') (lower U text) \<or> contains KW_SHEIDER (lower U text))),
     (lit ''animation'',
        (contains (lit ''animation'') (lower U text) \<or> contains KW_ANIMACI (lower U text))),
     (lit ''procedural'',
        (contains (lit ''procedural'') (lower U text) \<or> contains KW_PROCEDURN (lower U text)))]"

definition fire :: "(ustr \<times> bool) list \<Rightarrow> ustr list" where
  "fire rs = concat (map (\<lambda>(l, c). if c then [l] else []) rs)"


text \<open>
  A standalone token: an occurrence of the word with no word character next to it on
  either side.
\<close>

definition standalone :: "pylib \<Rightarrow> ustr \<Rightarrow> ustr \<Rightarrow> bool" where
  "standalone U w text \<longleftrightarrow>
     (\<exists>pre post. text = pre @ w @ post
        \<and> (pre = [] \<or> \<not> isword U (last pre)) \<and> (post = [] \<or> \<not> isword U (hd post)))"


section \<open>Type classification: results\<close>

lemma article_domain_no_suffix:
  assumes "domain \<in> set ARTICLE_DOMAINS"
  shows "\<not> subdomain_of_any domain VIDEO_DOMAINS \<and> \<not> subdomain_of_any domain SOCIAL_DOMAINS
       \<and> \<not> subdomain_of_any domain REPO_DOMAINS \<and> \<not> subdomain_of_any domain STORE_DOMAINS"
proof -
  have "list_all (\<lambda>a. \<not> subdomain_of_any a VIDEO_DOMAINS \<and> \<not> subdomain_of_any a SOCIAL_DOMAINS
       \<and> \<not> subdomain_of_any a REPO_DOMAINS \<and> \<not> subdomain_of_any a STORE_DOMAINS) ARTICLE_DOMAINS"
    by code_simp
  with assms show ?thesis
    by (simp add: list_all_iff)
qed

lemma classify_type_refines: "classify_type domain = classify_type_spec domain"
  using article_domain_no_suffix [of domain]
  by (simp add: classify_type_def classify_type_spec_def)

lemma classify_type_label: "classify_type domain \<in> set TYPE_LABELS"
  by (simp add: classify_type_def TYPE_LABELS_def)

lemma type_labels_nonempty: "[] \<notin> set TYPE_LABELS"
  by code_simp

text \<open>
  C6. For every domain string, \<open>classify_type\<close> resolves the type as the specification
  orders it (exact membership in the video, social, repository and store sets, then the
  suffix rule against the same four sets, then \<open>article\<close>); the result is one of the five
  labels and never empty; \<open>youtube.com\<close> is a video and \<open>sub.github.com\<close> a repository.
\<close>

theorem classify_type_resolution:
  "classify_type domain = classify_type_spec domain
   \<and> classify_type domain \<in> set TYPE_LABELS
   \<and> classify_type domain \<noteq> []
   \<and> classify_type (lit ''youtube.com'') = lit ''video''
   \<and> classify_type (lit ''sub.github.com'') = lit ''repository''
   \<and> lit ''sub.github.com'' \<notin> set REPO_DOMAINS
   \<and> subdomain_of_any (lit ''sub.github.com'') REPO_DOMAINS"
proof -
  have a: "classify_type domain \<noteq> []"
    using classify_type_label [of domain] type_labels_nonempty by metis
  have b: "classify_type (lit ''youtube.com'') = lit ''video''"
    by code_simp
  have c: "classify_type (lit ''sub.github.com'') = lit ''repository''"
    by code_simp
  have d: "lit ''sub.github.com'' \<notin> set REPO_DOMAINS"
    by code_simp
  have e: "subdomain_of_any (lit ''sub.github.com'') REPO_DOMAINS"
    by code_simp
  show ?thesis
    using a b c d e classify_type_refines classify_type_label by simp
qed

theorem classify_type_resolution_witness:
  "classify_type (lit ''dev.itch.io'') = lit ''store''
   \<and> classify_type_spec (lit ''dev.itch.io'') = lit ''store''"
proof -
  have "classify_type (lit ''dev.itch.io'') = lit ''store''"
    by code_simp
  then show ?thesis
    using classify_type_resolution [of "lit ''dev.itch.io''"] by simp
qed

section \<open>Tag classification: results\<close>

lemma tag_unreal_eq:
  "tag_unreal U domain text tags = tags @ (if ((endswith domain (lit ''unrealengine.com'') \<or> domain = lit ''unrealengine.com'')
        \<or> (contains (lit ''unreal engine'') (lower U text) \<or> contains (lit ''unreal'') (lower U text)
              \<or> found U RE_UE4 text \<or> found U RE_UE5 text)) then [lit ''unreal engine''] else [])"
  by (simp add: tag_unreal_def)

lemma tag_unity_eq:
  "tag_unity U domain text tags = tags @ (if ((domain \<in> set [lit ''blog.unity.com'', lit ''unity.com''] \<or> endswith domain (lit ''.unity.com''))
        \<or> (contains (lit ''unity'') (lower U text))) then [lit ''unity''] else [])"
  by (simp add: tag_unity_def)

lemma tag_godot_eq:
  "tag_godot U domain text tags = tags @ (if ((endswith domain (lit ''godotengine.org'') \<or> domain = lit ''godotengine.org'')
        \<or> (contains (lit ''godot'') (lower U text))) then [lit ''godot''] else [])"
  by (simp add: tag_godot_def)

lemma tag_blender_eq:
  "tag_blender U domain text tags = tags @ (if (contains (lit ''blender'') (lower U text)) then [lit ''blender''] else [])"
  by (simp add: tag_blender_def)

lemma tag_houdini_eq:
  "tag_houdini U domain text tags = tags @ (if (contains (lit ''houdini'') (lower U text)) then [lit ''houdini''] else [])"
  by (simp add: tag_houdini_def)

lemma tag_substance_eq:
  "tag_substance U domain text tags = tags @ (if (contains (lit ''substance'') (lower U text)) then [lit ''substance''] else [])"
  by (simp add: tag_substance_def)

lemma tag_maya_eq:
  "tag_maya U domain text tags = tags @ (if (found U RE_MAYA text) then [lit ''maya''] else [])"
  by (simp add: tag_maya_def)

lemma tag_zbrush_eq:
  "tag_zbrush U domain text tags = tags @ (if (contains (lit ''zbrush'') (lower U text)) then [lit ''zbrush''] else [])"
  by (simp add: tag_zbrush_def)

lemma tag_opensource_eq:
  "tag_opensource U domain text tags = tags @ (if ((domain \<in> set [lit ''github.com'', lit ''gitlab.com'']
         \<or> endswith domain (lit ''.github.com'') \<or> endswith domain (lit ''.gitlab.com''))
        \<or> (list_ex (\<lambda>kw. contains kw (lower U text))
                [lit ''open source'', lit ''opensource'', KW_OTKRYTYI_KOD, lit ''open-source''])) then [lit ''opensource''] else [])"
  by (simp add: tag_opensource_def)

lemma tag_free_eq:
  "tag_free U domain text tags = tags @ (if (contains KW_BESPLATN (lower U text) \<or> found U RE_FREE text
         \<or> domain = lit ''itch.io'' \<or> endswith domain (lit ''.itch.io'')) then [lit ''free''] else [])"
  by (simp add: tag_free_def)

lemma tag_steam_eq:
  "tag_steam U domain text tags = tags @ (if ((endswith domain (lit ''steampowered.com'') \<or> domain = lit ''steampowered.com'')
        \<or> (contains (lit ''steam'') (lower U text))) then [lit ''steam''] else [])"
  by (simp add: tag_steam_def)

lemma tag_playstation_eq:
  "tag_playstation U domain text tags = tags @ (if (list_ex (\<lambda>kw. contains kw (lower U text)) [lit ''playstation'']
         \<or> list_ex (\<lambda>kw. contains kw text) [lit ''PS4'', lit ''PS5'']) then [lit ''playstation''] else [])"
  by (simp add: tag_playstation_def)

lemma tag_xbox_eq:
  "tag_xbox U domain text tags = tags @ (if (contains (lit ''xbox'') (lower U text)) then [lit ''xbox''] else [])"
  by (simp add: tag_xbox_def)

lemma tag_nintendo_eq:
  "tag_nintendo U domain text tags = tags @ (if (contains (lit ''nintendo'') (lower U text) \<or> found U RE_SWITCH text) then [lit ''nintendo''] else [])"
  by (simp add: tag_nintendo_def)

lemma tag_ai_eq:
  "tag_ai U domain text tags = tags @ (if (found U RE_AI text \<or> contains (lit ''machine learning'') (lower U text)
         \<or> contains KW_NEIROSET (lower U text) \<or> contains KW_ISKUSSTVENN (lower U text)) then [lit ''ai''] else [])"
  by (simp add: tag_ai_def)

lemma tag_xr_eq:
  "tag_xr U domain text tags = tags @ (if (found U RE_VR text \<or> found U RE_AR text \<or> found U RE_XR text
         \<or> contains (lit ''virtual reality'') (lower U text) \<or> contains KW_VIRTUALN (lower U text)) then [lit ''xr''] else [])"
  by (simp add: tag_xr_def)

lemma tag_shaders_eq:
  "tag_shaders U domain text tags = tags @ (if (contains (lit ''shader'') (lower U text) \<or> contains KW_SHEIDER (lower U text)) then [lit ''shaders''] else [])"
  by (simp add: tag_shaders_def)

lemma tag_animation_eq:
  "tag_animation U domain text tags = tags @ (if (contains (lit ''animation'') (lower U text) \<or> contains KW_ANIMACI (lower U text)) then [lit ''animation''] else [])"
  by (simp add: tag_animation_def)

lemma tag_procedural_eq:
  "tag_procedural U domain text tags = tags @ (if (contains (lit ''procedural'') (lower U text) \<or> contains KW_PROCEDURN (lower U text)) then [lit ''procedural''] else [])"
  by (simp add: tag_procedural_def)


lemmas tag_eqs = tag_unreal_eq tag_unity_eq tag_godot_eq tag_blender_eq tag_houdini_eq tag_substance_eq tag_maya_eq tag_zbrush_eq tag_opensource_eq tag_free_eq tag_steam_eq tag_playstation_eq tag_xbox_eq tag_nintendo_eq tag_ai_eq tag_xr_eq tag_shaders_eq tag_animation_eq tag_procedural_eq

lemma fire_set: "l \<in> set (fire rs) \<longleftrightarrow> (l, True) \<in> set rs"
  by (induction rs) (auto simp: fire_def split: if_splits)

lemma fire_distinct: "distinct (map fst rs) \<Longrightarrow> distinct (fire rs)"
proof (induction rs)
  case Nil
  then show ?case by (simp add: fire_def)
next
  case (Cons r rs)
  obtain l c where r: "r = (l, c)" by (cases r)
  have "l \<notin> set (fire rs)"
    using Cons.prems r by (force simp: fire_set)
  moreover have "distinct (fire rs)"
    using Cons by simp
  moreover have "fire (r # rs) = (if c then l # fire rs else fire rs)"
    by (simp add: fire_def r)
  ultimately show ?case by simp
qed

lemma classify_tags_fire: "classify_tags U domain text = fire (tag_rules U domain text)"
  unfolding classify_tags_def Let_def tag_rules_def fire_def
  by (simp only: tag_eqs list.map concat.simps prod.case append_Nil append_Nil2 append_assoc)

lemma tag_labels:
  "map fst (tag_rules U domain text) = map lit [''unreal engine'', ''unity'', ''godot'', ''blender'', ''houdini'', ''substance'', ''maya'', ''zbrush'', ''opensource'', ''free'', ''steam'', ''playstation'', ''xbox'', ''nintendo'', ''ai'', ''xr'', ''shaders'', ''animation'', ''procedural'']"
  by (simp add: tag_rules_def)

lemma tag_labels_distinct: "distinct (map fst (tag_rules U domain text))"
  unfolding tag_labels by (simp add: lit_def)

lemma try_at_RE_AI:
  "try_at U RE_AI i pv xs \<noteq> None \<longleftrightarrow>
     at_boundary U pv xs \<and> (\<exists>rest. xs = 65 # 73 # rest \<and> at_boundary U (Some 73) rest)"
proof (cases xs)
  case Nil
  then show ?thesis by (simp add: try_at_def RE_AI_def lits_def)
next
  case (Cons a as)
  note outer = Cons
  show ?thesis
  proof (cases as)
    case Nil
    then show ?thesis using outer by (simp add: try_at_def RE_AI_def lits_def)
  next
    case (Cons b bs)
    then show ?thesis using outer
      by (auto simp: try_at_def RE_AI_def lits_def split: option.splits)
  qed
qed

lemma scan_found:
  "scan U p i pv xs \<noteq> None \<longleftrightarrow>
     (\<exists>as bs. xs = as @ bs
        \<and> try_at U p (i + length as) (if as = [] then pv else Some (last as)) bs \<noteq> None)"
proof (induction xs arbitrary: i pv)
  case Nil
  then show ?case by simp
next
  case (Cons x xs)
  show ?case
  proof (cases "try_at U p i pv (x # xs)")
    case (Some m)
    have "x # xs = [] @ (x # xs) \<and> try_at U p (i + length ([]::nat list)) (if ([]::nat list) = [] then pv else Some (last [])) (x # xs) \<noteq> None"
      using Some by simp
    then have "\<exists>as bs. x # xs = as @ bs
        \<and> try_at U p (i + length as) (if as = [] then pv else Some (last as)) bs \<noteq> None"
      by blast
    then show ?thesis using Some by simp
  next
    case None
    have l: "scan U p i pv (x # xs) \<noteq> None \<longleftrightarrow> scan U p (Suc i) (Some x) xs \<noteq> None"
      using None by simp
    have "(\<exists>as bs. x # xs = as @ bs
        \<and> try_at U p (i + length as) (if as = [] then pv else Some (last as)) bs \<noteq> None)
      \<longleftrightarrow> (\<exists>as bs. xs = as @ bs
        \<and> try_at U p (Suc i + length as) (if as = [] then Some x else Some (last as)) bs \<noteq> None)"
      (is "?L \<longleftrightarrow> ?R")
    proof
      assume ?L
      then obtain as bs where ab: "x # xs = as @ bs"
        and t: "try_at U p (i + length as) (if as = [] then pv else Some (last as)) bs \<noteq> None"
        by blast
      show ?R
      proof (cases as)
        case Nil
        then show ?thesis using ab t None by simp
      next
        case (Cons a as')
        then have "xs = as' @ bs" and "a = x" using ab by simp_all
        moreover have "try_at U p (Suc i + length as') (if as' = [] then Some x else Some (last as')) bs \<noteq> None"
          using t Cons \<open>a = x\<close> by (cases "as' = []") simp_all
        ultimately show ?thesis by blast
      qed
    next
      assume ?R
      then obtain as bs where ab: "xs = as @ bs"
        and t: "try_at U p (Suc i + length as) (if as = [] then Some x else Some (last as)) bs \<noteq> None"
        by blast
      have "x # xs = (x # as) @ bs" using ab by simp
      moreover have "try_at U p (i + length (x # as)) (if x # as = [] then pv else Some (last (x # as))) bs \<noteq> None"
        using t by (cases "as = []") simp_all
      ultimately show ?L by blast
    qed
    then show ?thesis using l Cons.IH [of "Suc i" "Some x"] by simp
  qed
qed

lemma found_RE_AI:
  assumes "isword U 65" "isword U 73"
  shows "found U RE_AI text \<longleftrightarrow> standalone U (lit ''AI'') text"
proof -
  have lit: "lit ''AI'' = [65, 73]" by (simp add: lit_def)
  have "found U RE_AI text \<longleftrightarrow>
     (\<exists>as bs. text = as @ bs
        \<and> try_at U RE_AI (0 + length as) (if as = [] then None else Some (last as)) bs \<noteq> None)"
    unfolding found_def re_search_def by (rule scan_found)
  also have "\<dots> \<longleftrightarrow> (\<exists>as rest. text = as @ 65 # 73 # rest
        \<and> at_boundary U (if as = [] then None else Some (last as)) (65 # 73 # rest)
        \<and> at_boundary U (Some 73) rest)"
    unfolding try_at_RE_AI by blast
  also have "\<dots> \<longleftrightarrow> (\<exists>as rest. text = as @ [65, 73] @ rest
        \<and> (as = [] \<or> \<not> isword U (last as)) \<and> (rest = [] \<or> \<not> isword U (hd rest)))"
  proof -
    have "\<And>as rest. (at_boundary U (if as = [] then None else Some (last as)) (65 # 73 # rest)
        \<and> at_boundary U (Some 73) rest)
        \<longleftrightarrow> ((as = [] \<or> \<not> isword U (last as)) \<and> (rest = [] \<or> \<not> isword U (hd rest)))"
      using assms by (auto simp: at_boundary_def split: list.splits)
    then show ?thesis by simp
  qed
  finally show ?thesis by (simp add: standalone_def lit)
qed

lemma tag_member:
  "l \<in> set (classify_tags U domain text) \<longleftrightarrow> (l, True) \<in> set (tag_rules U domain text)"
  by (simp add: classify_tags_fire fire_set)

lemma ai_member:
  "lit ''ai'' \<in> set (classify_tags U domain text) \<longleftrightarrow>
     found U RE_AI text \<or> contains (lit ''machine learning'') (lower U text)
       \<or> contains KW_NEIROSET (lower U text) \<or> contains KW_ISKUSSTVENN (lower U text)"
  unfolding tag_member by (simp add: tag_rules_def lit_def)

lemma free_member:
  "lit ''free'' \<in> set (classify_tags U domain text) \<longleftrightarrow>
     contains KW_BESPLATN (lower U text) \<or> found U RE_FREE text
       \<or> domain = lit ''itch.io'' \<or> endswith domain (lit ''.itch.io'')"
  unfolding tag_member by (simp add: tag_rules_def lit_def)

lemma opensource_member:
  "lit ''opensource'' \<in> set (classify_tags U domain text) \<longleftrightarrow>
     (domain \<in> set [lit ''github.com'', lit ''gitlab.com'']
         \<or> endswith domain (lit ''.github.com'') \<or> endswith domain (lit ''.gitlab.com''))
     \<or> list_ex (\<lambda>kw. contains kw (lower U text))
                [lit ''open source'', lit ''opensource'', KW_OTKRYTYI_KOD, lit ''open-source'']"
  unfolding tag_member by (simp add: tag_rules_def lit_def)

lemma py_basic_word_AI: "isword py_basic 65 \<and> isword py_basic 73"
  by (simp add: py_basic_def)

lemma painting_no_ai: "lit ''ai'' \<notin> set (classify_tags py_basic domain (lit ''painting''))"
proof -
  have "\<not> found py_basic RE_AI (lit ''painting'')" by code_simp
  moreover have "\<not> contains (lit ''machine learning'') (lower py_basic (lit ''painting''))" by code_simp
  moreover have "\<not> contains KW_NEIROSET (lower py_basic (lit ''painting''))" by code_simp
  moreover have "\<not> contains KW_ISKUSSTVENN (lower py_basic (lit ''painting''))" by code_simp
  ultimately show ?thesis unfolding ai_member by simp
qed

text \<open>
  C7. A text with the standalone token \<open>AI\<close> gets the tag \<open>ai\<close>; the tag \<open>ai\<close> is given
  exactly when the word-boundary pattern or one of the three phrases is found, and the
  pattern is found exactly at a standalone \<open>AI\<close>, so that \<open>painting\<close> does not get it;
  the domain \<open>itch.io\<close> and its subdomains get \<open>free\<close> whatever the text, and
  \<open>sub.github.com\<close> gets \<open>opensource\<close> by the suffix rule whatever the text.
\<close>

theorem classify_tags_rules:
  "(isword U 65 \<and> isword U 73 \<and> standalone U (lit ''AI'') text
      \<longrightarrow> lit ''ai'' \<in> set (classify_tags U domain text))
   \<and> (lit ''ai'' \<in> set (classify_tags U domain text) \<longleftrightarrow>
        found U RE_AI text \<or> contains (lit ''machine learning'') (lower U text)
        \<or> contains KW_NEIROSET (lower U text) \<or> contains KW_ISKUSSTVENN (lower U text))
   \<and> (isword U 65 \<and> isword U 73 \<longrightarrow> (found U RE_AI text \<longleftrightarrow> standalone U (lit ''AI'') text))
   \<and> lit ''ai'' \<notin> set (classify_tags py_basic domain (lit ''painting''))
   \<and> (domain = lit ''itch.io'' \<or> endswith domain (lit ''.itch.io'')
        \<longrightarrow> lit ''free'' \<in> set (classify_tags U domain text))
   \<and> lit ''opensource'' \<in> set (classify_tags U (lit ''sub.github.com'') text)
   \<and> lit ''sub.github.com'' \<notin> set [lit ''github.com'', lit ''gitlab.com'']"
proof -
  have a: "isword U 65 \<and> isword U 73 \<and> standalone U (lit ''AI'') text
      \<longrightarrow> lit ''ai'' \<in> set (classify_tags U domain text)"
    using found_RE_AI [of U "text"] by (simp add: ai_member)
  have b: "isword U 65 \<and> isword U 73 \<longrightarrow> (found U RE_AI text \<longleftrightarrow> standalone U (lit ''AI'') text)"
    using found_RE_AI [of U "text"] by simp
  have c: "domain = lit ''itch.io'' \<or> endswith domain (lit ''.itch.io'')
        \<longrightarrow> lit ''free'' \<in> set (classify_tags U domain text)"
    by (auto simp: free_member)
  have "endswith (lit ''sub.github.com'') (lit ''.github.com'')" by code_simp
  then have d: "lit ''opensource'' \<in> set (classify_tags U (lit ''sub.github.com'') text)"
    by (simp add: opensource_member)
  have e: "lit ''sub.github.com'' \<notin> set [lit ''github.com'', lit ''gitlab.com'']" by code_simp
  show ?thesis
    using a b c d e ai_member [of U domain "text"] painting_no_ai [of domain] by blast
qed

theorem classify_tags_rules_witness:
  "isword py_basic 65 \<and> isword py_basic 73
   \<and> standalone py_basic (lit ''AI'') (lit ''New AI tools'')
   \<and> lit ''ai'' \<in> set (classify_tags py_basic (lit ''example.com'') (lit ''New AI tools''))
   \<and> endswith (lit ''dev.itch.io'') (lit ''.itch.io'')
   \<and> lit ''free'' \<in> set (classify_tags py_basic (lit ''dev.itch.io'') (lit ''New AI tools''))"
proof -
  have w: "isword py_basic 65 \<and> isword py_basic 73" by (rule py_basic_word_AI)
  have "lit ''New AI tools'' = lit ''New '' @ lit ''AI'' @ lit '' tools''"
    by (simp add: lit_def)
  moreover have "\<not> isword py_basic (last (lit ''New ''))" by (simp add: lit_def py_basic_def)
  moreover have "\<not> isword py_basic (hd (lit '' tools''))" by (simp add: lit_def py_basic_def)
  ultimately have s: "standalone py_basic (lit ''AI'') (lit ''New AI tools'')"
    unfolding standalone_def by blast
  have e: "endswith (lit ''dev.itch.io'') (lit ''.itch.io'')" by code_simp
  show ?thesis
    using w s e
      classify_tags_rules [of py_basic "lit ''New AI tools''" "lit ''example.com''"]
      classify_tags_rules [of py_basic "lit ''New AI tools''" "lit ''dev.itch.io''"]
    by blast
qed

text \<open>
  C9. For every domain and text, the list that \<open>classify_tags\<close> returns holds no label
  twice.
\<close>

theorem classify_tags_distinct: "distinct (classify_tags U domain text)"
  by (simp add: classify_tags_fire fire_distinct tag_labels_distinct)

theorem classify_tags_distinct_witness:
  "classify_tags py_basic (lit ''github.com'') (lit ''Free AI'')
     = map lit [''opensource'', ''free'', ''ai'']
   \<and> distinct (classify_tags py_basic (lit ''github.com'') (lit ''Free AI''))"
proof -
  have "classify_tags py_basic (lit ''github.com'') (lit ''Free AI'')
     = map lit [''opensource'', ''free'', ''ai'']"
    by code_simp
  then show ?thesis
    using classify_tags_distinct [of py_basic "lit ''github.com''" "lit ''Free AI''"]
    by simp
qed

end
